theory Spec2Isabelle
  imports Main "HOL-Library.Signed_Division" "HOL-Library.Word"
begin

section \<open>Values shared by the provider and its collaborators\<close>

text \<open>
  A Go \<^verbatim>\<open>error\<close> is either built by \<^verbatim>\<open>awserr.New(code, message, origErr)\<close> or comes
  from an external collaborator (the ini parser, the operating system, the JSON codec,
  the STS client); the latter are opaque and carried as \<open>Foreign\<close>.
\<close>

datatype error = AwsErr string string "error option" | Foreign string

text \<open>
  A Go call either returns or panics (nil-pointer dereference, slice out of range).
\<close>

datatype 'a outcome = Panic | Return 'a

text \<open>
  \<^verbatim>\<open>credentials.Value\<close> as this code uses it: the static fields plus the
  role-chaining fields read in \<^verbatim>\<open>loadProfile\<close>; \<^verbatim>\<open>ExternalID\<close> is a \<^verbatim>\<open>*string\<close>.
\<close>

record Value =
  AccessKeyID :: string
  SecretAccessKey :: string
  SessionToken :: string
  ProviderName :: string
  RoleARN :: string
  RoleSessionName :: string
  SourceProfile :: string
  MFASerial :: string
  ExternalID :: "string option"

definition SharedCredsProviderName :: string where
  "SharedCredsProviderName = ''SharedCredentialsProvider''"

text \<open>The literal \<^verbatim>\<open>credentials.Value{ProviderName: SharedCredsProviderName}\<close>.\<close>

definition Value_ProviderName_only :: Value where
  "Value_ProviderName_only =
     \<lparr>AccessKeyID = '''', SecretAccessKey = '''', SessionToken = '''',
      ProviderName = SharedCredsProviderName, RoleARN = '''', RoleSessionName = '''',
      SourceProfile = '''', MFASerial = '''', ExternalID = None\<rparr>"

definition ErrSharedCredentialsHomeNotFound :: error where
  "ErrSharedCredentialsHomeNotFound =
     AwsErr ''UserHomeNotFound'' ''user home directory not found.'' None"

text \<open>
  Time is the number of nanoseconds since the Unix epoch, a \<^verbatim>\<open>time.Duration\<close> a number
  of nanoseconds. \<open>zero_Time\<close> is Go's zero \<^verbatim>\<open>time.Time\<close> (1 January of year 1, UTC).
\<close>

definition zero_Time :: int where
  "zero_Time = - 62135596800000000000"

definition Second :: int where
  "Second = 1000000000"

definition Minute :: int where
  "Minute = 60 * Second"

definition DefaultDuration :: int where
  "DefaultDuration = 15 * Minute"

text \<open>\<^verbatim>\<open>UnixNano\<close> yields an \<^verbatim>\<open>int64\<close>; out of range it wraps.\<close>

definition UnixNano :: "int \<Rightarrow> int" where
  "UnixNano t = sint (word_of_int t :: 64 word)"

text \<open>\<^verbatim>\<open>fmt.Sprintf("%d", n)\<close>: the decimal digits, with a minus sign below zero.\<close>

fun string_of_nat :: "nat \<Rightarrow> string" where
  "string_of_nat n =
     (if n < 10 then [char_of (48 + n)]
      else string_of_nat (n div 10) @ [char_of (48 + n mod 10)])"

declare string_of_nat.simps [simp del]

definition Sprintf_d :: "int \<Rightarrow> string" where
  "Sprintf_d n = (if n < 0 then CHR ''-'' # string_of_nat (nat (- n)) else string_of_nat (nat n))"

subsection \<open>The STS wire types\<close>

record sts_Credentials =
  AccessKeyId :: "string option"
  sts_SecretAccessKey :: "string option"
  sts_SessionToken :: "string option"
  Expiration :: "int option"

text \<open>Of \<^verbatim>\<open>sts.AssumeRoleOutput\<close> the provider reads the \<^verbatim>\<open>Credentials\<close> pointer only.\<close>

record AssumeRoleOutput =
  Credentials :: "sts_Credentials option"

record AssumeRoleInput =
  DurationSeconds :: int
  RoleArn :: string
  sts_RoleSessionName :: string
  ExternalId :: "string option"

text \<open>
  \<^verbatim>\<open>AssumeRoler\<close>: the one network operation, returning a response pointer and an error.
\<close>

type_synonym AssumeRoler = "AssumeRoleInput \<Rightarrow> AssumeRoleOutput option \<times> error option"

subsection \<open>The mutable world and the fixed environment\<close>

text \<open>
  The world holds what a call can change: the files on disk (each path is readable with
  some content, or reading it fails), and the log of requests sent through the STS client.
\<close>

record World =
  files :: "string \<Rightarrow> error + string"
  sts_calls :: "AssumeRoleInput list"

text \<open>A parsed ini file: \<^verbatim>\<open>GetSection\<close> and, on a section, \<^verbatim>\<open>Key(k).String()\<close>.\<close>

type_synonym Section = "string \<Rightarrow> string"
type_synonym IniFile = "string \<Rightarrow> error + Section"

text \<open>
  The environment holds the external collaborators, fixed during one call:
  environment variables, the ini parser, the wall clock, the current user's home directory
  (\<open>None\<close> when \<^verbatim>\<open>user.Current\<close> fails and returns a nil user), \<^verbatim>\<open>filepath.Join\<close>, the JSON
  codec, the error (if any) with which writing a path fails, and the client built by
  \<^verbatim>\<open>sts.New(session.New())\<close>.
\<close>

record Env =
  Getenv :: "string \<Rightarrow> string"
  ini_Load :: "string \<Rightarrow> error + IniFile"
  Now :: int
  user_Current :: "string option"
  filepath_Join :: "string list \<Rightarrow> string"
  json_Marshal :: "AssumeRoleOutput \<Rightarrow> error + string"
  json_Unmarshal :: "string \<Rightarrow> AssumeRoleOutput \<times> error option"
  WriteFile_error :: "string \<Rightarrow> error option"
  sts_New :: AssumeRoler

section \<open>cache.go\<close>

text \<open>The \<^verbatim>\<open>Cache\<close> interface: any implementation may touch the world or panic.\<close>

record Cache =
  Cache_Get :: "World \<Rightarrow> ((AssumeRoleOutput option \<times> error option) \<times> World) outcome"
  Cache_IsExpired :: "World \<Rightarrow> (bool \<times> World) outcome"
  Cache_Set :: "AssumeRoleOutput option \<Rightarrow> World \<Rightarrow> (error option \<times> World) outcome"

definition FileCache_Get ::
  "Env \<Rightarrow> string \<Rightarrow> World \<Rightarrow> ((AssumeRoleOutput option \<times> error option) \<times> World) outcome" where
  "FileCache_Get env FileName w =
     (case files w FileName of
        Inl err \<Rightarrow> Return ((None, Some err), w)
      | Inr data \<Rightarrow>
          (case json_Unmarshal env data of
             (response, err) \<Rightarrow> Return ((Some response, err), w)))"

definition FileCache_IsExpired :: "World \<Rightarrow> (bool \<times> World) outcome" where
  "FileCache_IsExpired w = Return (True, w)"

text \<open>
  \<^verbatim>\<open>Set\<close> dereferences its argument first. A write that fails leaves the file as it was.
\<close>

definition FileCache_Set ::
  "Env \<Rightarrow> string \<Rightarrow> AssumeRoleOutput option \<Rightarrow> World \<Rightarrow> (error option \<times> World) outcome" where
  "FileCache_Set env FileName response w =
     (case response of
        None \<Rightarrow> Panic
      | Some r \<Rightarrow>
          (case json_Marshal env r of
             Inl err \<Rightarrow> Return (Some err, w)
           | Inr data \<Rightarrow>
               (case WriteFile_error env FileName of
                  Some err \<Rightarrow> Return (Some err, w)
                | None \<Rightarrow> Return (None, w\<lparr>files := (files w)(FileName := Inr data)\<rparr>))))"

definition FileCache :: "Env \<Rightarrow> string \<Rightarrow> Cache" where
  "FileCache env FileName =
     \<lparr>Cache_Get = FileCache_Get env FileName,
      Cache_IsExpired = FileCache_IsExpired,
      Cache_Set = FileCache_Set env FileName\<rparr>"

text \<open>The \<^verbatim>\<open>CacheProvider\<close> interface.\<close>

type_synonym CacheProvider =
  "string \<Rightarrow> string \<Rightarrow> string \<Rightarrow> World \<Rightarrow> (Cache \<times> World) outcome"

text \<open>
  \<^verbatim>\<open>strings.Replace(s, old, new, n)\<close> for a one-byte \<^verbatim>\<open>old\<close>, as both call sites have it:
  the first \<open>n\<close> occurrences are replaced, all of them when \<open>n < 0\<close>.
\<close>

fun strings_Replace :: "string \<Rightarrow> char \<Rightarrow> string \<Rightarrow> int \<Rightarrow> string" where
  "strings_Replace [] old new n = []"
| "strings_Replace (c # s) old new n =
     (if n \<noteq> 0 \<and> c = old then new @ strings_Replace s old new (n - 1)
      else c # strings_Replace s old new n)"

fun strings_Join :: "string list \<Rightarrow> string \<Rightarrow> string" where
  "strings_Join [] sep = []"
| "strings_Join [a] sep = a"
| "strings_Join (a # b # rest) sep = a @ sep @ strings_Join (b # rest) sep"

definition getCacheKey :: "string \<Rightarrow> string \<Rightarrow> string \<Rightarrow> string" where
  "getCacheKey profile roleArn roleSessionName =
     (let arn = strings_Replace roleArn (CHR '':'') ''_'' (- 1);
          cacheKey = strings_Join [profile, arn] ''--''
      in if roleSessionName \<noteq> '''' then strings_Join [cacheKey, roleSessionName] ''--''
         else cacheKey)"

text \<open>
  \<^verbatim>\<open>JSONFileCacheProvider.Get\<close>: the error of \<^verbatim>\<open>user.Current\<close> is dropped, so a nil user
  panics at \<^verbatim>\<open>user.HomeDir\<close>; \<^verbatim>\<open>dir[:2]\<close> panics on a directory name shorter than two bytes.
\<close>

definition JSONFileCacheProvider_Get :: "Env \<Rightarrow> string \<Rightarrow> CacheProvider" where
  "JSONFileCacheProvider_Get env CacheDirName profile roleArn roleSessionName w =
     (let cacheKey = getCacheKey profile roleArn roleSessionName
      in case user_Current env of
           None \<Rightarrow> Panic
         | Some homeDir \<Rightarrow>
             (let dir = CacheDirName
              in if length dir < 2 then Panic
                 else
                   (let dir = (if take 2 dir = ''~/''
                               then strings_Replace dir (CHR ''~'') homeDir 1 else dir)
                    in Return
                         (FileCache env
                            (filepath_Join env [dir, strings_Join [cacheKey, ''json''] ''.'']),
                          w))))"

section \<open>The shared credentials provider\<close>

record STSOptions =
  Duration :: int
  ExpiryWindow :: int
  Client :: "AssumeRoler option"

record SharedCredentialsProvider =
  Expiry_expiration :: int
  Filename :: string
  Profile :: string
  retrieved :: bool
  CacheProvider :: "CacheProvider option"
  Cache :: bool
  STS :: STSOptions

text \<open>
  Modelled from the spec: \<^verbatim>\<open>credentials.Expiry\<close>, which the provider embeds, is not among
  the sources; the provider keeps its expiration timestamp in \<open>Expiry_expiration\<close>.
  \<^verbatim>\<open>SetExpiration\<close> stores the expiration minus the expiry window: the expiration
  timestamp is computed "from the response minus the configured expiry window". The
  documentation of \<^verbatim>\<open>STSOptions.ExpiryWindow\<close> in the sources adds that a window of zero or
  less is ignored.
\<close>

definition SetExpiration ::
  "SharedCredentialsProvider \<Rightarrow> int \<Rightarrow> int \<Rightarrow> SharedCredentialsProvider" where
  "SetExpiration p expiration window =
     p\<lparr>Expiry_expiration := (if window > 0 then expiration - window else expiration)\<rparr>"

text \<open>
  Modelled from the spec: \<^verbatim>\<open>Expiry.IsExpired\<close>, not among the sources either, holds when
  the current time is at or past the stored timestamp ("current time \<open>\<ge>\<close> expirationTimestamp
  - expiryWindow", the window having been subtracted when the timestamp was stored).
\<close>

definition Expiry_IsExpired :: "Env \<Rightarrow> SharedCredentialsProvider \<Rightarrow> bool" where
  "Expiry_IsExpired env p = (Now env \<ge> Expiry_expiration p)"

text \<open>
  The provider that \<^verbatim>\<open>NewSharedCredentialsWithOptions\<close> builds before it applies the
  options: every field not named in the literal has its zero value.
\<close>

definition NewSharedCredentialsProvider :: "Env \<Rightarrow> string \<Rightarrow> string \<Rightarrow> SharedCredentialsProvider" where
  "NewSharedCredentialsProvider env filename profile =
     \<lparr>Expiry_expiration = zero_Time,
      Filename = filename,
      Profile = profile,
      retrieved = False,
      CacheProvider =
        Some (JSONFileCacheProvider_Get env (filepath_Join env [''~'', ''.aws'', ''cli'', ''cache''])),
      Cache = False,
      STS = \<lparr>Duration = 0, ExpiryWindow = 0, Client = None\<rparr>\<rparr>"

definition validate :: "Value \<Rightarrow> string \<Rightarrow> string \<Rightarrow> Value \<times> error option" where
  "validate value filename profile =
     (if RoleARN value = '''' then
        (if AccessKeyID value = '''' then
           (Value_ProviderName_only,
            Some (AwsErr ''SharedCredsAccessKey''
                    (''shared credentials '' @ profile @ '' in '' @ filename
                       @ '' did not contain aws_access_key_id'') None))
         else if SecretAccessKey value = '''' then
           (Value_ProviderName_only,
            Some (AwsErr ''SharedCredsSecret''
                    (''shared credentials '' @ profile @ '' in '' @ filename
                       @ '' did not contain aws_secret_access_key'') None))
         else (value, None))
      else
        (if SourceProfile value = '''' then
           (Value_ProviderName_only,
            Some (AwsErr ''SharedCredsSourceProfile''
                    (''shared credentials '' @ profile @ '' in '' @ filename
                       @ '' did not contain source_profile'') None))
         else (value, None)))"

definition loadProfile :: "Env \<Rightarrow> string \<Rightarrow> string \<Rightarrow> Value \<times> error option" where
  "loadProfile env filename profile =
     (case ini_Load env filename of
        Inl err \<Rightarrow>
          (Value_ProviderName_only,
           Some (AwsErr ''SharedCredsLoad'' ''failed to load shared credentials file'' (Some err)))
      | Inr config \<Rightarrow>
          (case config profile of
             Inl err \<Rightarrow>
               (Value_ProviderName_only,
                Some (AwsErr ''SharedCredsLoad'' ''failed to get profile'' (Some err)))
           | Inr iniProfile \<Rightarrow>
               validate
                 \<lparr>AccessKeyID = iniProfile ''aws_access_key_id'',
                  SecretAccessKey = iniProfile ''aws_secret_access_key'',
                  SessionToken = iniProfile ''aws_session_token'',
                  ProviderName = SharedCredsProviderName,
                  RoleARN = iniProfile ''role_arn'',
                  RoleSessionName = iniProfile ''role_session_name'',
                  SourceProfile = iniProfile ''source_profile'',
                  MFASerial = iniProfile ''mfa_serial'',
                  ExternalID = None\<rparr>
                 filename profile))"

text \<open>\<^verbatim>\<open>filename\<close> and \<^verbatim>\<open>profile\<close> store what they resolve in the provider.\<close>

definition filename ::
  "Env \<Rightarrow> SharedCredentialsProvider \<Rightarrow> string \<times> error option \<times> SharedCredentialsProvider" where
  "filename env p =
     (if Filename p = '''' then
        (let p = p\<lparr>Filename := Getenv env ''AWS_SHARED_CREDENTIALS_FILE''\<rparr>
         in if Filename p \<noteq> '''' then (Filename p, None, p)
            else
              (let homeDir = Getenv env ''HOME'';
                   homeDir = (if homeDir = '''' then Getenv env ''USERPROFILE'' else homeDir)
               in if homeDir = '''' then ('''', Some ErrSharedCredentialsHomeNotFound, p)
                  else
                    (let p = p\<lparr>Filename := filepath_Join env [homeDir, ''.aws'', ''credentials'']\<rparr>
                     in (Filename p, None, p))))
      else (Filename p, None, p))"

definition profile :: "Env \<Rightarrow> SharedCredentialsProvider \<Rightarrow> string \<times> SharedCredentialsProvider" where
  "profile env p =
     (let p = (if Profile p = '''' then p\<lparr>Profile := Getenv env ''AWS_PROFILE''\<rparr> else p);
          p = (if Profile p = '''' then p\<lparr>Profile := ''default''\<rparr> else p)
      in (Profile p, p))"

text \<open>
  Sending a request through \<^verbatim>\<open>p.STS.Client\<close>; the world logs it. A call through a nil
  interface panics.
\<close>

definition AssumeRole ::
  "AssumeRoler option \<Rightarrow> AssumeRoleInput \<Rightarrow> World \<Rightarrow>
     ((AssumeRoleOutput option \<times> error option) \<times> World) outcome" where
  "AssumeRole client input w =
     (case client of
        None \<Rightarrow> Panic
      | Some c \<Rightarrow> Return (c input, w\<lparr>sts_calls := sts_calls w @ [input]\<rparr>))"

text \<open>The defaults that \<^verbatim>\<open>Assume\<close> applies to its argument and to the provider.\<close>

definition Assume_credentials :: "Env \<Rightarrow> Value \<Rightarrow> Value" where
  "Assume_credentials env credentials =
     (if RoleSessionName credentials = ''''
      then credentials\<lparr>RoleSessionName := Sprintf_d (UnixNano (Now env))\<rparr>
      else credentials)"

definition Assume_defaults :: "Env \<Rightarrow> SharedCredentialsProvider \<Rightarrow> SharedCredentialsProvider" where
  "Assume_defaults env p =
     (let p = (if Duration (STS p) = 0 then p\<lparr>STS := (STS p)\<lparr>Duration := DefaultDuration\<rparr>\<rparr> else p)
      in case Client (STS p) of
           None \<Rightarrow> p\<lparr>STS := (STS p)\<lparr>Client := Some (sts_New env)\<rparr>\<rparr>
         | Some c \<Rightarrow> p)"

definition Assume_input :: "SharedCredentialsProvider \<Rightarrow> Value \<Rightarrow> AssumeRoleInput" where
  "Assume_input p credentials =
     \<lparr>DurationSeconds = Duration (STS p) sdiv Second,
      RoleArn = RoleARN credentials,
      sts_RoleSessionName = RoleSessionName credentials,
      ExternalId = ExternalID credentials\<rparr>"

text \<open>
  The \<^verbatim>\<open>if p.Cache\<close> statement of \<^verbatim>\<open>Assume\<close>: it leaves \<^verbatim>\<open>roleOutput\<close> and \<^verbatim>\<open>err\<close>.
  \<open>p\<close> and \<open>credentials\<close> already carry the defaults. A nil \<^verbatim>\<open>CacheProvider\<close> panics
  at the call of its method.
\<close>

definition Assume_roleOutput ::
  "SharedCredentialsProvider \<Rightarrow> Value \<Rightarrow> World \<Rightarrow>
     ((AssumeRoleOutput option \<times> error option) \<times> World) outcome" where
  "Assume_roleOutput p credentials w =
     (if Cache p then
        (case CacheProvider p of
           None \<Rightarrow> Panic
         | Some provider \<Rightarrow>
             (case provider (SourceProfile credentials) (RoleARN credentials)
                     (RoleSessionName credentials) w of
                Panic \<Rightarrow> Panic
              | Return (cache, w) \<Rightarrow>
                  (case Cache_IsExpired cache w of
                     Panic \<Rightarrow> Panic
                   | Return (expired, w) \<Rightarrow>
                       (if \<not> expired then Cache_Get cache w
                        else
                          (case AssumeRole (Client (STS p)) (Assume_input p credentials) w of
                             Panic \<Rightarrow> Panic
                           | Return ((roleOutput, err), w) \<Rightarrow>
                               (if err \<noteq> None then
                                  (case Cache_Set cache roleOutput w of
                                     Panic \<Rightarrow> Panic
                                   | Return (err, w) \<Rightarrow> Return ((roleOutput, err), w))
                                else Return ((roleOutput, err), w)))))))
      else AssumeRole (Client (STS p)) (Assume_input p credentials) w)"

text \<open>
  The tail of \<^verbatim>\<open>Assume\<close>: the error return, then the dereferences of the response in the
  order the code makes them.
\<close>

definition Assume_result ::
  "SharedCredentialsProvider \<Rightarrow> AssumeRoleOutput option \<Rightarrow> error option \<Rightarrow> World \<Rightarrow>
     ((Value \<times> error option) \<times> SharedCredentialsProvider \<times> World) outcome" where
  "Assume_result p roleOutput err w =
     (case err of
        Some e \<Rightarrow> Return ((Value_ProviderName_only, Some e), p, w)
      | None \<Rightarrow>
          (case roleOutput of
             None \<Rightarrow> Panic
           | Some out \<Rightarrow>
               (case Credentials out of
                  None \<Rightarrow> Panic
                | Some c \<Rightarrow>
                    (case Expiration c of
                       None \<Rightarrow> Panic
                     | Some expiration \<Rightarrow>
                         (let p = SetExpiration p expiration (ExpiryWindow (STS p))
                          in case AccessKeyId c of
                               None \<Rightarrow> Panic
                             | Some k \<Rightarrow>
                                 (case sts_SecretAccessKey c of
                                    None \<Rightarrow> Panic
                                  | Some s \<Rightarrow>
                                      (case sts_SessionToken c of
                                         None \<Rightarrow> Panic
                                       | Some t \<Rightarrow>
                                           Return
                                             ((Value_ProviderName_only
                                                 \<lparr>AccessKeyID := k, SecretAccessKey := s,
                                                  SessionToken := t\<rparr>,
                                               None),
                                              p, w))))))))"

definition Assume ::
  "Env \<Rightarrow> SharedCredentialsProvider \<Rightarrow> Value \<Rightarrow> Value \<Rightarrow> World \<Rightarrow>
     ((Value \<times> error option) \<times> SharedCredentialsProvider \<times> World) outcome" where
  "Assume env p credentials sourceCredentials w =
     (let credentials = Assume_credentials env credentials;
          p = Assume_defaults env p
      in case Assume_roleOutput p credentials w of
           Panic \<Rightarrow> Panic
         | Return ((roleOutput, err), w) \<Rightarrow> Assume_result p roleOutput err w)"

definition Retrieve ::
  "Env \<Rightarrow> SharedCredentialsProvider \<Rightarrow> World \<Rightarrow>
     ((Value \<times> error option) \<times> SharedCredentialsProvider \<times> World) outcome" where
  "Retrieve env p w =
     (let p = p\<lparr>retrieved := False\<rparr>
      in case filename env p of
           (fname, Some err, p) \<Rightarrow> Return ((Value_ProviderName_only, Some err), p, w)
         | (fname, None, p) \<Rightarrow>
             (case profile env p of
                (prof, p) \<Rightarrow>
                  (case loadProfile env fname prof of
                     (creds, Some err) \<Rightarrow> Return ((Value_ProviderName_only, Some err), p, w)
                   | (creds, None) \<Rightarrow>
                       (if RoleARN creds \<noteq> '''' then
                          (let creds = (if SourceProfile creds = ''''
                                        then creds\<lparr>SourceProfile := ''default''\<rparr> else creds)
                           in case loadProfile env fname (SourceProfile creds) of
                                (sourceCreds, Some err) \<Rightarrow>
                                  Return ((Value_ProviderName_only, Some err), p, w)
                              | (sourceCreds, None) \<Rightarrow> Assume env p creds sourceCreds w)
                        else Return ((creds, None), p\<lparr>retrieved := True\<rparr>, w)))))"

definition IsExpired :: "Env \<Rightarrow> SharedCredentialsProvider \<Rightarrow> bool" where
  "IsExpired env p = (\<not> retrieved p \<and> Expiry_IsExpired env p)"


section \<open>A concrete installation\<close>

text \<open>
  A credentials file with a static profile \<^verbatim>\<open>default\<close>, a role-chained profile \<^verbatim>\<open>ops\<close>
  with \<^verbatim>\<open>source_profile = default\<close>, and a role-chained profile \<^verbatim>\<open>orphan\<close> without
  \<^verbatim>\<open>source_profile\<close>.
\<close>

definition example_ini :: IniFile where
  "example_ini name =
     (if name = ''default'' then
        Inr (\<lambda>k. if k = ''aws_access_key_id'' then ''AKID''
                 else if k = ''aws_secret_access_key'' then ''SECRET''
                 else if k = ''aws_session_token'' then ''TOKEN'' else '''')
      else if name = ''ops'' then
        Inr (\<lambda>k. if k = ''role_arn'' then ''role/X''
                 else if k = ''source_profile'' then ''default''
                 else if k = ''role_session_name'' then ''sess'' else '''')
      else if name = ''orphan'' then
        Inr (\<lambda>k. if k = ''role_arn'' then ''role/X'' else '''')
      else Inl (Foreign ''section does not exist''))"

definition example_session :: "int \<Rightarrow> AssumeRoleOutput" where
  "example_session expiration =
     \<lparr>Credentials =
        Some \<lparr>AccessKeyId = Some ''ASIA'', sts_SecretAccessKey = Some ''SESSIONSECRET'',
              sts_SessionToken = Some ''SESSIONTOKEN'', Expiration = Some expiration\<rparr>\<rparr>"

text \<open>A stand-in for the JSON codec, enough to tell a session from an empty response.\<close>

definition example_Marshal :: "AssumeRoleOutput \<Rightarrow> error + string" where
  "example_Marshal out =
     Inr (case Credentials out of
            None \<Rightarrow> ''null''
          | Some c \<Rightarrow>
              (case Expiration c of None \<Rightarrow> ''session'' | Some e \<Rightarrow> ''session '' @ Sprintf_d e))"

definition example_Unmarshal :: "string \<Rightarrow> AssumeRoleOutput \<times> error option" where
  "example_Unmarshal data =
     (if data = ''session 9000'' then (example_session 9000, None)
      else if data = ''null'' then (\<lparr>Credentials = None\<rparr>, None)
      else (\<lparr>Credentials = None\<rparr>, Some (Foreign ''invalid character'')))"

definition example_env :: "AssumeRoler \<Rightarrow> int \<Rightarrow> Env" where
  "example_env client now =
     \<lparr>Getenv = (\<lambda>k. if k = ''HOME'' then ''/home/u'' else ''''),
      ini_Load = (\<lambda>f. if f = ''/home/u/.aws/credentials'' then Inr example_ini
                       else Inl (Foreign ''no such file or directory'')),
      Now = now,
      user_Current = Some ''/home/u'',
      filepath_Join = (\<lambda>elem. strings_Join elem ''/''),
      json_Marshal = example_Marshal,
      json_Unmarshal = example_Unmarshal,
      WriteFile_error = (\<lambda>name. None),
      sts_New = client\<rparr>"

text \<open>The path of the cache file of profile \<^verbatim>\<open>ops\<close> in this installation.\<close>

definition example_cache_file :: string where
  "example_cache_file = ''/home/u/.aws/cli/cache/default--role/X--sess.json''"

definition example_World :: "(string \<Rightarrow> error + string) \<Rightarrow> World" where
  "example_World fs = \<lparr>files = fs, sts_calls = []\<rparr>"

definition no_files :: "string \<Rightarrow> error + string" where
  "no_files name = Inl (Foreign ''no such file or directory'')"

text \<open>
  Three clients: one that grants a session expiring at the given time, one that refuses
  and returns an empty response beside the error, one that refuses with a nil response.
\<close>

definition client_grants :: "int \<Rightarrow> AssumeRoler" where
  "client_grants expiration input = (Some (example_session expiration), None)"

definition AccessDenied :: error where
  "AccessDenied = AwsErr ''AccessDenied'' ''not authorized to perform sts:AssumeRole'' None"

definition client_refuses :: AssumeRoler where
  "client_refuses input = (Some \<lparr>Credentials = None\<rparr>, Some AccessDenied)"

definition client_refuses_nil :: AssumeRoler where
  "client_refuses_nil input = (None, Some AccessDenied)"

definition example_provider ::
  "Env \<Rightarrow> string \<Rightarrow> bool \<Rightarrow> int \<Rightarrow> SharedCredentialsProvider" where
  "example_provider env prof cache window =
     (NewSharedCredentialsProvider env '''' prof)
       \<lparr>Cache := cache, STS := \<lparr>Duration = 0, ExpiryWindow = window, Client = None\<rparr>\<rparr>"

text \<open>The request that \<^verbatim>\<open>Assume\<close> sends for profile \<^verbatim>\<open>ops\<close> with the default duration.\<close>

definition example_input :: AssumeRoleInput where
  "example_input =
     \<lparr>DurationSeconds = 900, RoleArn = ''role/X'', sts_RoleSessionName = ''sess'',
      ExternalId = None\<rparr>"

text \<open>The same file after every profile was rewritten to hold static keys.\<close>

definition static_ini :: IniFile where
  "static_ini name =
     Inr (\<lambda>k. if k = ''aws_access_key_id'' then ''AKID''
              else if k = ''aws_secret_access_key'' then ''SECRET'' else '''')"

text \<open>
  The provider of profile \<^verbatim>\<open>ops\<close> after a role was assumed through the default client,
  with the given timestamp stored.
\<close>

definition session_state :: "Env \<Rightarrow> int \<Rightarrow> int \<Rightarrow> SharedCredentialsProvider" where
  "session_state env window expiration =
     (example_provider env ''ops'' False window)
       \<lparr>Filename := ''/home/u/.aws/credentials'', Expiry_expiration := expiration,
        STS := \<lparr>Duration = DefaultDuration, ExpiryWindow = window, Client = Some (sts_New env)\<rparr>\<rparr>"

text \<open>A disk that holds a cached session for profile \<^verbatim>\<open>ops\<close>, expiring at 9000.\<close>

definition cached_files :: "string \<Rightarrow> error + string" where
  "cached_files name = (if name = example_cache_file then Inr ''session 9000'' else no_files name)"

text \<open>The same installation on a disk that refuses every write.\<close>

definition readonly_env :: "AssumeRoler \<Rightarrow> int \<Rightarrow> Env" where
  "readonly_env client now =
     (example_env client now)\<lparr>WriteFile_error := \<lambda>name. Some (Foreign ''permission denied'')\<rparr>"

section \<open>What the steps of \<^verbatim>\<open>Retrieve\<close> keep\<close>

lemma filename_keeps:
  assumes "filename env p = (f, e, p')"
  shows "retrieved p' = retrieved p" "Expiry_expiration p' = Expiry_expiration p"
    "STS p' = STS p" "Cache p' = Cache p" "CacheProvider p' = CacheProvider p"
  using assms by (auto simp: filename_def Let_def split: if_splits)

lemma profile_keeps:
  assumes "profile env p = (pr, p')"
  shows "retrieved p' = retrieved p" "Expiry_expiration p' = Expiry_expiration p"
    "STS p' = STS p" "Cache p' = Cache p" "CacheProvider p' = CacheProvider p"
  using assms by (auto simp: profile_def Let_def split: if_splits)

lemma Assume_defaults_keeps:
  "retrieved (Assume_defaults env p) = retrieved p"
  "Expiry_expiration (Assume_defaults env p) = Expiry_expiration p"
  "Cache (Assume_defaults env p) = Cache p"
  "CacheProvider (Assume_defaults env p) = CacheProvider p"
  "ExpiryWindow (STS (Assume_defaults env p)) = ExpiryWindow (STS p)"
  by (auto simp: Assume_defaults_def Let_def split: option.splits)

lemma Assume_defaults_Client:
  "Client (STS (Assume_defaults env p)) =
     Some (case Client (STS p) of None \<Rightarrow> sts_New env | Some c \<Rightarrow> c)"
  by (auto simp: Assume_defaults_def Let_def split: option.splits)

lemma Assume_result_keeps:
  assumes "Assume_result p ro err w = Return ((v, e), p', w')"
  shows "retrieved p' = retrieved p" "w' = w" "e = err"
    "e \<noteq> None \<Longrightarrow> p' = p \<and> v = Value_ProviderName_only"
  using assms by (auto simp: Assume_result_def SetExpiration_def Let_def split: option.splits)

lemma Assume_Return:
  assumes "Assume env p c s w = Return (r, p', w')"
  obtains ro err w1 where
    "Assume_roleOutput (Assume_defaults env p) (Assume_credentials env c) w = Return ((ro, err), w1)"
    "Assume_result (Assume_defaults env p) ro err w1 = Return (r, p', w')"
  using assms by (auto simp: Assume_def Let_def split: outcome.splits prod.splits)

lemma Assume_keeps:
  assumes "Assume env p c s w = Return ((v, e), p', w')"
  shows "retrieved p' = retrieved p"
    "e \<noteq> None \<Longrightarrow> Expiry_expiration p' = Expiry_expiration p"
proof -
  from assms obtain ro err w1 where
    r: "Assume_result (Assume_defaults env p) ro err w1 = Return ((v, e), p', w')"
    by (rule Assume_Return)
  from Assume_result_keeps(1) [OF r] show "retrieved p' = retrieved p"
    by (simp add: Assume_defaults_keeps)
  assume "e \<noteq> None"
  with Assume_result_keeps(4) [OF r] show "Expiry_expiration p' = Expiry_expiration p"
    by (simp add: Assume_defaults_keeps)
qed

lemma loadProfile_SourceProfile:
  assumes "loadProfile env f pr = (creds, None)" "RoleARN creds \<noteq> ''''"
  shows "SourceProfile creds \<noteq> ''''"
  using assms
  by (auto simp: loadProfile_def validate_def Value_ProviderName_only_def
      split: sum.splits if_splits)

lemma Retrieve_cases:
  assumes f: "filename env (p\<lparr>retrieved := False\<rparr>) = (fname, ferr, p1)"
    and pr: "profile env p1 = (prof, p2)"
  shows "Retrieve env p w =
     (case ferr of
        Some err \<Rightarrow> Return ((Value_ProviderName_only, Some err), p1, w)
      | None \<Rightarrow>
          (case loadProfile env fname prof of
             (creds, Some err) \<Rightarrow> Return ((Value_ProviderName_only, Some err), p2, w)
           | (creds, None) \<Rightarrow>
               (if RoleARN creds \<noteq> '''' then
                  (case loadProfile env fname (SourceProfile creds) of
                     (sourceCreds, Some err) \<Rightarrow>
                       Return ((Value_ProviderName_only, Some err), p2, w)
                   | (sourceCreds, None) \<Rightarrow> Assume env p2 creds sourceCreds w)
                else Return ((creds, None), p2\<lparr>retrieved := True\<rparr>, w))))"
  using f pr
  by (auto simp: Retrieve_def Let_def split: prod.splits option.splits
      dest: loadProfile_SourceProfile)

lemma Retrieve_error_state:
  assumes "Retrieve env p w = Return ((v, Some e), p', w')"
  shows "\<not> retrieved p' \<and> Expiry_expiration p' = Expiry_expiration p"
proof -
  obtain fname ferr p1 where f: "filename env (p\<lparr>retrieved := False\<rparr>) = (fname, ferr, p1)"
    by (cases "filename env (p\<lparr>retrieved := False\<rparr>)") auto
  obtain pr p2 where pr: "profile env p1 = (pr, p2)"
    by (cases "profile env p1") auto
  have p1: "\<not> retrieved p1" "Expiry_expiration p1 = Expiry_expiration p"
    using filename_keeps(1,2) [OF f] by simp_all
  have p2: "\<not> retrieved p2" "Expiry_expiration p2 = Expiry_expiration p"
    using profile_keeps(1,2) [OF pr] p1 by simp_all
  show ?thesis
    using assms p1 p2
    by (auto simp: Retrieve_cases [OF f pr] split: option.splits prod.splits if_splits
        dest: Assume_keeps)
qed

lemma Assume_result_success:
  assumes "Assume_result p ro err w = Return ((v, None), p', w')"
  shows "\<exists>out c e k s t. ro = Some out \<and> err = None \<and> Credentials out = Some c
     \<and> Expiration c = Some e \<and> AccessKeyId c = Some k \<and> sts_SecretAccessKey c = Some s
     \<and> sts_SessionToken c = Some t \<and> p' = SetExpiration p e (ExpiryWindow (STS p)) \<and> w' = w
     \<and> v = Value_ProviderName_only\<lparr>AccessKeyID := k, SecretAccessKey := s, SessionToken := t\<rparr>"
  using assms by (auto simp: Assume_result_def Let_def split: option.splits)

section \<open>Evaluating the concrete installation\<close>

lemmas example_defs =
  example_env_def example_provider_def example_World_def no_files_def example_ini_def
  example_session_def example_Marshal_def example_Unmarshal_def client_grants_def
  client_refuses_def client_refuses_nil_def AccessDenied_def example_input_def
  example_cache_file_def NewSharedCredentialsProvider_def

lemmas Retrieve_defs =
  Retrieve_def filename_def profile_def loadProfile_def validate_def Assume_def
  Assume_credentials_def Assume_defaults_def Assume_input_def Assume_roleOutput_def
  Assume_result_def AssumeRole_def SetExpiration_def Value_ProviderName_only_def
  SharedCredsProviderName_def ErrSharedCredentialsHomeNotFound_def DefaultDuration_def
  Minute_def Second_def JSONFileCacheProvider_Get_def getCacheKey_def FileCache_def
  FileCache_Get_def FileCache_Set_def FileCache_IsExpired_def

lemma sdiv_900: "(900000000000::int) sdiv 1000000000 = 900"
  by (simp add: signed_divide_int_def)

section \<open>The cache key\<close>

lemma strings_Replace_all:
  "n < 0 \<Longrightarrow> strings_Replace s old [new] n = map (\<lambda>c. if c = old then new else c) s"
  by (induction s arbitrary: n) auto

lemma getCacheKey_eq:
  "getCacheKey p a s =
     p @ ''--'' @ map (\<lambda>c. if c = CHR '':'' then CHR ''_'' else c) a
       @ (if s = '''' then '''' else ''--'' @ s)"
  by (simp add: getCacheKey_def strings_Replace_all)

text \<open>
  C6, as amended. \<^verbatim>\<open>getCacheKey\<close> replaces every colon of the role identifier by an
  underscore, joins the profile name and the sanitized identifier with \<^verbatim>\<open>--\<close>, and appends
  the session name with the same separator when it is not empty. Two triples that differ
  in the profile name only, or in the session name only, have different keys; two triples
  that differ in the role identifier only have the same key exactly when the sanitized
  identifiers are equal, so they have different keys when neither identifier contains an
  underscore.
\<close>

theorem getCacheKey_single_field:
  "getCacheKey p a s =
     p @ ''--'' @ map (\<lambda>c. if c = CHR '':'' then CHR ''_'' else c) a
       @ (if s = '''' then '''' else ''--'' @ s)
   \<and> (p \<noteq> p' \<longrightarrow> getCacheKey p a s \<noteq> getCacheKey p' a s)
   \<and> (s \<noteq> s' \<longrightarrow> getCacheKey p a s \<noteq> getCacheKey p a s')
   \<and> (getCacheKey p a s = getCacheKey p a' s
        \<longleftrightarrow> strings_Replace a (CHR '':'') ''_'' (- 1) = strings_Replace a' (CHR '':'') ''_'' (- 1))
   \<and> (a \<noteq> a' \<and> CHR ''_'' \<notin> set a \<and> CHR ''_'' \<notin> set a'
        \<longrightarrow> getCacheKey p a s \<noteq> getCacheKey p a' s)"
proof -
  let ?f = "\<lambda>c. if c = CHR '':'' then CHR ''_'' else c"
  have san: "strings_Replace x (CHR '':'') ''_'' (- 1) = map ?f x" for x
    by (simp add: strings_Replace_all)
  have inj: "map ?f a = map ?f a' \<Longrightarrow> CHR ''_'' \<notin> set a \<Longrightarrow> CHR ''_'' \<notin> set a' \<Longrightarrow> a = a'"
  proof (induction a arbitrary: a')
    case Nil
    then show ?case by simp
  next
    case (Cons x xs)
    then obtain y ys where a': "a' = y # ys" by (cases a') auto
    with Cons.prems have "?f x = ?f y" "map ?f xs = map ?f ys" by simp_all
    moreover from Cons.prems a' have "x \<noteq> CHR ''_''" "y \<noteq> CHR ''_''"
      "CHR ''_'' \<notin> set xs" "CHR ''_'' \<notin> set ys" by auto
    ultimately show ?case using Cons.IH [of ys] a' by (auto split: if_splits)
  qed
  have c1: "p \<noteq> p' \<longrightarrow> getCacheKey p a s \<noteq> getCacheKey p' a s"
    by (simp add: getCacheKey_eq)
  have c2: "s \<noteq> s' \<longrightarrow> getCacheKey p a s \<noteq> getCacheKey p a s'"
    by (simp add: getCacheKey_eq)
  have c3: "getCacheKey p a s = getCacheKey p a' s
        \<longleftrightarrow> strings_Replace a (CHR '':'') ''_'' (- 1) = strings_Replace a' (CHR '':'') ''_'' (- 1)"
    by (simp add: getCacheKey_eq san)
  have c4: "a \<noteq> a' \<and> CHR ''_'' \<notin> set a \<and> CHR ''_'' \<notin> set a'
        \<longrightarrow> getCacheKey p a s \<noteq> getCacheKey p a' s"
    using inj c3 san by metis
  show ?thesis using getCacheKey_eq c1 c2 c3 c4 by blast
qed

text \<open>
  The amended statement at three pairs of triples, each differing in one field.
\<close>

theorem getCacheKey_single_field_witness:
  "''dev'' \<noteq> ''ops'' \<and> getCacheKey ''dev'' ''arn:role/X'' ''s'' \<noteq> getCacheKey ''ops'' ''arn:role/X'' ''s''
   \<and> ''s'' \<noteq> '''' \<and> getCacheKey ''dev'' ''arn:role/X'' ''s'' \<noteq> getCacheKey ''dev'' ''arn:role/X'' ''''
   \<and> ''arn:role/X'' \<noteq> ''arn:role/Y'' \<and> CHR ''_'' \<notin> set ''arn:role/X'' \<and> CHR ''_'' \<notin> set ''arn:role/Y''
   \<and> getCacheKey ''dev'' ''arn:role/X'' ''s'' \<noteq> getCacheKey ''dev'' ''arn:role/Y'' ''s''"
proof -
  have h1: "''dev'' \<noteq> ''ops''" and h2: "''s'' \<noteq> ''''"
    and h3: "''arn:role/X'' \<noteq> ''arn:role/Y'' \<and> CHR ''_'' \<notin> set ''arn:role/X''
      \<and> CHR ''_'' \<notin> set ''arn:role/Y''"
    by simp_all
  from getCacheKey_single_field
    [of "''dev''" "''arn:role/X''" "''s''" "''ops''" "''''" "''arn:role/Y''"] h1 h2 h3
  show ?thesis by blast
qed

text \<open>
  C6 as stated fails: two triples that differ in the role identifier alone, one with a
  colon where the other has an underscore, have the same key.
\<close>

theorem getCacheKey_collision:
  "(''p'', ''a:b'', '''') \<noteq> (''p'', ''a_b'', '''')
   \<and> getCacheKey ''p'' ''a:b'' '''' = getCacheKey ''p'' ''a_b'' ''''"
  by (simp add: getCacheKey_def)

section \<open>Loading and validating a profile\<close>

text \<open>
  C8. \<^verbatim>\<open>validate\<close> fails with \<^verbatim>\<open>SharedCredsSourceProfile\<close> exactly when the role
  identifier is set and the source profile is empty; with an empty role identifier it fails
  with \<^verbatim>\<open>SharedCredsAccessKey\<close> when the access key id is empty, and with
  \<^verbatim>\<open>SharedCredsSecret\<close> when the secret access key is empty (the access key id, checked
  first, being present); in every other case it returns the value unchanged without an
  error. \<^verbatim>\<open>loadProfile\<close> fails with \<^verbatim>\<open>SharedCredsSourceProfile\<close> exactly when the file
  loads, the section exists, and the section has a role identifier and no source profile.
\<close>

theorem validate_outcomes:
  "((\<exists>m. snd (validate v f pr) = Some (AwsErr ''SharedCredsSourceProfile'' m None))
      \<longleftrightarrow> RoleARN v \<noteq> '''' \<and> SourceProfile v = '''')
   \<and> (RoleARN v = '''' \<and> AccessKeyID v = '''' \<longrightarrow>
        (\<exists>m. validate v f pr = (Value_ProviderName_only, Some (AwsErr ''SharedCredsAccessKey'' m None))))
   \<and> (RoleARN v = '''' \<and> AccessKeyID v \<noteq> '''' \<and> SecretAccessKey v = '''' \<longrightarrow>
        (\<exists>m. validate v f pr = (Value_ProviderName_only, Some (AwsErr ''SharedCredsSecret'' m None))))
   \<and> (RoleARN v \<noteq> '''' \<and> SourceProfile v = '''' \<longrightarrow>
        (\<exists>m. validate v f pr =
           (Value_ProviderName_only, Some (AwsErr ''SharedCredsSourceProfile'' m None))))
   \<and> (\<not> (RoleARN v \<noteq> '''' \<and> SourceProfile v = '''')
        \<and> \<not> (RoleARN v = '''' \<and> (AccessKeyID v = '''' \<or> SecretAccessKey v = ''''))
        \<longrightarrow> validate v f pr = (v, None))
   \<and> ((\<exists>m. snd (loadProfile env f pr) = Some (AwsErr ''SharedCredsSourceProfile'' m None))
        \<longleftrightarrow> (\<exists>config sec. ini_Load env f = Inr config \<and> config pr = Inr sec
               \<and> sec ''role_arn'' \<noteq> '''' \<and> sec ''source_profile'' = ''''))"
proof -
  have a: "(\<exists>m. snd (validate v f pr) = Some (AwsErr ''SharedCredsSourceProfile'' m None))
      \<longleftrightarrow> RoleARN v \<noteq> '''' \<and> SourceProfile v = ''''" for v :: Value and f pr
    by (simp add: validate_def)
  have b: "(\<exists>m. snd (loadProfile env f pr) = Some (AwsErr ''SharedCredsSourceProfile'' m None))
        \<longleftrightarrow> (\<exists>config sec. ini_Load env f = Inr config \<and> config pr = Inr sec
               \<and> sec ''role_arn'' \<noteq> '''' \<and> sec ''source_profile'' = '''')"
    by (cases "ini_Load env f"; cases "projr (ini_Load env f) pr") (simp_all add: loadProfile_def a)
  show ?thesis using a [of v f pr] b by (simp add: validate_def)
qed

theorem validate_outcomes_witness:
  "(\<exists>m. snd (loadProfile (example_env client_refuses 5) ''/home/u/.aws/credentials'' ''orphan'')
          = Some (AwsErr ''SharedCredsSourceProfile'' m None))
   \<and> validate (Value_ProviderName_only\<lparr>AccessKeyID := ''AKID'', SecretAccessKey := ''SECRET''\<rparr>)
        ''credentials'' ''default''
      = (Value_ProviderName_only\<lparr>AccessKeyID := ''AKID'', SecretAccessKey := ''SECRET''\<rparr>, None)
   \<and> (\<exists>m. validate (Value_ProviderName_only\<lparr>SecretAccessKey := ''SECRET''\<rparr>)
        ''credentials'' ''default''
      = (Value_ProviderName_only, Some (AwsErr ''SharedCredsAccessKey'' m None)))
   \<and> (\<exists>m. validate (Value_ProviderName_only\<lparr>AccessKeyID := ''AKID''\<rparr>)
        ''credentials'' ''default''
      = (Value_ProviderName_only, Some (AwsErr ''SharedCredsSecret'' m None)))
   \<and> (\<exists>m. validate (Value_ProviderName_only\<lparr>RoleARN := ''role/X''\<rparr>)
        ''credentials'' ''default''
      = (Value_ProviderName_only, Some (AwsErr ''SharedCredsSourceProfile'' m None)))"
proof -
  let ?env = "example_env client_refuses 5"
  have h: "\<exists>config sec. ini_Load ?env ''/home/u/.aws/credentials'' = Inr config
      \<and> config ''orphan'' = Inr sec \<and> sec ''role_arn'' \<noteq> '''' \<and> sec ''source_profile'' = ''''"
    by (simp add: example_env_def example_ini_def)
  have 1: "\<exists>m. snd (loadProfile ?env ''/home/u/.aws/credentials'' ''orphan'')
          = Some (AwsErr ''SharedCredsSourceProfile'' m None)"
    using validate_outcomes [where env = ?env and f = "''/home/u/.aws/credentials''"
        and pr = "''orphan''"] h by blast
  have 2: "validate (Value_ProviderName_only\<lparr>AccessKeyID := ''AKID'', SecretAccessKey := ''SECRET''\<rparr>)
        ''credentials'' ''default''
      = (Value_ProviderName_only\<lparr>AccessKeyID := ''AKID'', SecretAccessKey := ''SECRET''\<rparr>, None)"
    using validate_outcomes [of "Value_ProviderName_only\<lparr>AccessKeyID := ''AKID'', SecretAccessKey := ''SECRET''\<rparr>"
        "''credentials''" "''default''"]
    by (simp add: Value_ProviderName_only_def)
  have 3: "\<exists>m. validate (Value_ProviderName_only\<lparr>SecretAccessKey := ''SECRET''\<rparr>)
        ''credentials'' ''default''
      = (Value_ProviderName_only, Some (AwsErr ''SharedCredsAccessKey'' m None))"
    using validate_outcomes [of "Value_ProviderName_only\<lparr>SecretAccessKey := ''SECRET''\<rparr>"
        "''credentials''" "''default''"]
    by (simp add: Value_ProviderName_only_def)
  have 4: "\<exists>m. validate (Value_ProviderName_only\<lparr>AccessKeyID := ''AKID''\<rparr>)
        ''credentials'' ''default''
      = (Value_ProviderName_only, Some (AwsErr ''SharedCredsSecret'' m None))"
    using validate_outcomes [of "Value_ProviderName_only\<lparr>AccessKeyID := ''AKID''\<rparr>"
        "''credentials''" "''default''"]
    by (simp add: Value_ProviderName_only_def)
  have 5: "\<exists>m. validate (Value_ProviderName_only\<lparr>RoleARN := ''role/X''\<rparr>)
        ''credentials'' ''default''
      = (Value_ProviderName_only, Some (AwsErr ''SharedCredsSourceProfile'' m None))"
    using validate_outcomes [of "Value_ProviderName_only\<lparr>RoleARN := ''role/X''\<rparr>"
        "''credentials''" "''default''"]
    by (simp add: Value_ProviderName_only_def)
  from 1 2 3 4 5 show ?thesis by blast
qed

section \<open>Static profiles\<close>

text \<open>
  C5. When the file name resolves, the file loads, and the section of the active profile
  has no role identifier and has both keys, \<^verbatim>\<open>Retrieve\<close> returns the profile as loaded
  (access key id, secret access key and session token verbatim) without an error, sets the
  retrieved flag, and \<^verbatim>\<open>IsExpired\<close> is false on the resulting provider whatever the clock
  reads.
\<close>

theorem Retrieve_static_profile:
  assumes "filename env (p\<lparr>retrieved := False\<rparr>) = (fname, None, p1)"
    and "ini_Load env fname = Inr config"
    and "config (fst (profile env p1)) = Inr sec"
    and "sec ''role_arn'' = ''''"
    and "sec ''aws_access_key_id'' \<noteq> ''''"
    and "sec ''aws_secret_access_key'' \<noteq> ''''"
  shows "\<exists>v p'. Retrieve env p w = Return ((v, None), p', w)
    \<and> AccessKeyID v = sec ''aws_access_key_id''
    \<and> SecretAccessKey v = sec ''aws_secret_access_key''
    \<and> SessionToken v = sec ''aws_session_token''
    \<and> (v, None) = loadProfile env fname (fst (profile env p1))
    \<and> retrieved p' \<and> (\<forall>env'. \<not> IsExpired env' p')"
proof -
  obtain prof p2 where pr: "profile env p1 = (prof, p2)"
    by (cases "profile env p1") auto
  let ?v = "\<lparr>AccessKeyID = sec ''aws_access_key_id'',
             SecretAccessKey = sec ''aws_secret_access_key'',
             SessionToken = sec ''aws_session_token'',
             ProviderName = SharedCredsProviderName,
             RoleARN = sec ''role_arn'',
             RoleSessionName = sec ''role_session_name'',
             SourceProfile = sec ''source_profile'',
             MFASerial = sec ''mfa_serial'',
             ExternalID = None\<rparr>"
  have l: "loadProfile env fname prof = (?v, None)"
    using assms(2-6) pr by (simp add: loadProfile_def validate_def)
  have r: "Retrieve env p w = Return ((?v, None), p2\<lparr>retrieved := True\<rparr>, w)"
    using assms(4) l by (simp add: Retrieve_cases [OF assms(1) pr])
  show ?thesis using r l pr by (simp add: IsExpired_def)
qed

theorem Retrieve_static_profile_witness:
  "\<exists>v p'. Retrieve (example_env client_refuses 5)
       (example_provider (example_env client_refuses 5) ''default'' False 0)
       (example_World no_files) = Return ((v, None), p', example_World no_files)
    \<and> AccessKeyID v = ''AKID'' \<and> SecretAccessKey v = ''SECRET'' \<and> SessionToken v = ''TOKEN''
    \<and> retrieved p' \<and> (\<forall>env'. \<not> IsExpired env' p')"
proof -
  let ?env = "example_env client_refuses 5"
  let ?p = "example_provider ?env ''default'' False 0"
  let ?sec = "\<lambda>k. if k = ''aws_access_key_id'' then ''AKID''
                 else if k = ''aws_secret_access_key'' then ''SECRET''
                 else if k = ''aws_session_token'' then ''TOKEN'' else ''''"
  have h1: "filename ?env (?p\<lparr>retrieved := False\<rparr>) =
      (''/home/u/.aws/credentials'', None,
       ?p\<lparr>retrieved := False, Filename := ''/home/u/.aws/credentials''\<rparr>)"
    by (simp add: filename_def example_defs Let_def)
  have h2: "ini_Load ?env ''/home/u/.aws/credentials'' = Inr example_ini"
    by (simp add: example_env_def)
  have h3: "example_ini
       (fst (profile ?env (?p\<lparr>retrieved := False, Filename := ''/home/u/.aws/credentials''\<rparr>)))
      = Inr ?sec"
    by (simp add: profile_def example_defs Let_def)
  have h4: "?sec ''role_arn'' = ''''" and h5: "?sec ''aws_access_key_id'' \<noteq> ''''"
    and h6: "?sec ''aws_secret_access_key'' \<noteq> ''''"
    by simp_all
  from Retrieve_static_profile [OF h1 h2 h3 h4 h5 h6, of "example_World no_files"]
  obtain v p' where "Retrieve ?env ?p (example_World no_files)
        = Return ((v, None), p', example_World no_files)"
    "AccessKeyID v = ?sec ''aws_access_key_id''"
    "SecretAccessKey v = ?sec ''aws_secret_access_key''"
    "SessionToken v = ?sec ''aws_session_token''"
    "retrieved p'" "\<forall>env'. \<not> IsExpired env' p'"
    by blast
  then show ?thesis by (intro exI [of _ v] exI [of _ p']) simp
qed

section \<open>The retrieved flag after an error\<close>

text \<open>
  C10, as amended. \<^verbatim>\<open>Retrieve\<close> resets the retrieved flag before any other work, so its
  result does not depend on the flag it finds. After a \<^verbatim>\<open>Retrieve\<close> that returns an error
  the flag is false and the stored expiration is the one from before the call, so
  \<^verbatim>\<open>IsExpired\<close> is true exactly when the clock is at or past that stored expiration:
  true when no role session ever stored one, even if an earlier \<^verbatim>\<open>Retrieve\<close> succeeded
  with static credentials, and false while the expiration of an earlier role session is
  still ahead.
\<close>

theorem Retrieve_error_IsExpired:
  "Retrieve env (p\<lparr>retrieved := b\<rparr>) w = Retrieve env p w
   \<and> (Retrieve env p w = Return ((v, Some e), p', w') \<longrightarrow>
        \<not> retrieved p' \<and> Expiry_expiration p' = Expiry_expiration p
        \<and> (\<forall>env'. IsExpired env' p' \<longleftrightarrow> Expiry_expiration p \<le> Now env'))"
proof -
  have 1: "Retrieve env (p\<lparr>retrieved := b\<rparr>) w = Retrieve env p w"
    by (simp add: Retrieve_def)
  have 2: "\<not> retrieved p' \<and> Expiry_expiration p' = Expiry_expiration p
        \<and> (\<forall>env'. IsExpired env' p' \<longleftrightarrow> Expiry_expiration p \<le> Now env')"
    if "Retrieve env p w = Return ((v, Some e), p', w')"
    using Retrieve_error_state [OF that] by (simp add: IsExpired_def Expiry_IsExpired_def)
  from 1 2 show ?thesis by blast
qed

text \<open>
  The amended statement at a provider that holds static credentials (flag set, no
  expiration stored) when the credentials file disappears.
\<close>

theorem Retrieve_error_IsExpired_witness:
  "Retrieve ((example_env client_refuses 5)
               \<lparr>ini_Load := \<lambda>f. Inl (Foreign ''no such file or directory'')\<rparr>)
     ((example_provider (example_env client_refuses 5) ''default'' False 0)
        \<lparr>Filename := ''/home/u/.aws/credentials'', retrieved := True\<rparr>)
     (example_World no_files) =
   Return
     ((Value_ProviderName_only,
       Some (AwsErr ''SharedCredsLoad'' ''failed to load shared credentials file''
               (Some (Foreign ''no such file or directory'')))),
      (example_provider (example_env client_refuses 5) ''default'' False 0)
        \<lparr>Filename := ''/home/u/.aws/credentials''\<rparr>,
      example_World no_files)
   \<and> IsExpired (example_env client_refuses 6)
        ((example_provider (example_env client_refuses 5) ''default'' False 0)
           \<lparr>Filename := ''/home/u/.aws/credentials''\<rparr>)"
proof -
  let ?env = "(example_env client_refuses 5)
               \<lparr>ini_Load := \<lambda>f. Inl (Foreign ''no such file or directory'')\<rparr>"
  let ?p = "(example_provider (example_env client_refuses 5) ''default'' False 0)
        \<lparr>Filename := ''/home/u/.aws/credentials'', retrieved := True\<rparr>"
  let ?p' = "(example_provider (example_env client_refuses 5) ''default'' False 0)
        \<lparr>Filename := ''/home/u/.aws/credentials''\<rparr>"
  let ?e = "AwsErr ''SharedCredsLoad'' ''failed to load shared credentials file''
               (Some (Foreign ''no such file or directory''))"
  have h: "Retrieve ?env ?p (example_World no_files) =
      Return ((Value_ProviderName_only, Some ?e), ?p', example_World no_files)"
    by (simp add: Retrieve_defs example_defs Let_def)
  have z: "Expiry_expiration ?p \<le> Now (example_env client_refuses 6)"
    by (simp add: example_defs zero_Time_def)
  from Retrieve_error_IsExpired [where env = ?env and p = ?p and w = "example_World no_files"
      and v = Value_ProviderName_only and e = ?e and p' = ?p' and w' = "example_World no_files"]
    h z
  have "IsExpired (example_env client_refuses 6) ?p'" by blast
  with h show ?thesis by blast
qed

text \<open>
  C10 as stated fails on a provider that assumed a role earlier. A role session expiring
  at 2000 is stored at time 5; the profile is then rewritten with static keys and retrieved,
  which sets the flag; then the file disappears and \<^verbatim>\<open>Retrieve\<close> returns an error. The flag
  is reset, but the stored expiration is still ahead, and \<^verbatim>\<open>IsExpired\<close> is false.
\<close>

theorem Retrieve_error_not_expired:
  "Retrieve (example_env (client_grants 2000) 5)
     (example_provider (example_env (client_grants 2000) 5) ''ops'' False 0)
     (example_World no_files) =
   Return
     ((Value_ProviderName_only
         \<lparr>AccessKeyID := ''ASIA'', SecretAccessKey := ''SESSIONSECRET'',
          SessionToken := ''SESSIONTOKEN''\<rparr>, None),
      session_state (example_env (client_grants 2000) 5) 0 2000,
      (example_World no_files)\<lparr>sts_calls := [example_input]\<rparr>)
   \<and> Retrieve ((example_env (client_grants 2000) 5)\<lparr>ini_Load := \<lambda>f. Inr static_ini\<rparr>)
       (session_state (example_env (client_grants 2000) 5) 0 2000)
       ((example_World no_files)\<lparr>sts_calls := [example_input]\<rparr>) =
     Return
       ((Value_ProviderName_only\<lparr>AccessKeyID := ''AKID'', SecretAccessKey := ''SECRET''\<rparr>, None),
        (session_state (example_env (client_grants 2000) 5) 0 2000)\<lparr>retrieved := True\<rparr>,
        (example_World no_files)\<lparr>sts_calls := [example_input]\<rparr>)
   \<and> Retrieve ((example_env (client_grants 2000) 5)
                 \<lparr>ini_Load := \<lambda>f. Inl (Foreign ''no such file or directory'')\<rparr>)
       ((session_state (example_env (client_grants 2000) 5) 0 2000)\<lparr>retrieved := True\<rparr>)
       ((example_World no_files)\<lparr>sts_calls := [example_input]\<rparr>) =
     Return
       ((Value_ProviderName_only,
         Some (AwsErr ''SharedCredsLoad'' ''failed to load shared credentials file''
                 (Some (Foreign ''no such file or directory'')))),
        session_state (example_env (client_grants 2000) 5) 0 2000,
        (example_World no_files)\<lparr>sts_calls := [example_input]\<rparr>)
   \<and> \<not> IsExpired ((example_env (client_grants 2000) 5)
                     \<lparr>ini_Load := \<lambda>f. Inl (Foreign ''no such file or directory'')\<rparr>)
          (session_state (example_env (client_grants 2000) 5) 0 2000)"
  by (simp add: Retrieve_defs example_defs session_state_def static_ini_def Let_def sdiv_900
      IsExpired_def Expiry_IsExpired_def)

section \<open>Expiry\<close>

lemma Retrieve_role_success:
  assumes f: "filename env (p\<lparr>retrieved := False\<rparr>) = (fname, None, p1)"
    and pr: "profile env p1 = (prof, p2)"
    and l: "loadProfile env fname prof = (creds, None)"
    and role: "RoleARN creds \<noteq> ''''"
    and r: "Retrieve env p w = Return ((v, None), p', w')"
  shows "\<exists>out c e. Assume_roleOutput (Assume_defaults env p2) (Assume_credentials env creds) w
        = Return ((Some out, None), w')
      \<and> Credentials out = Some c \<and> Expiration c = Some e
      \<and> p' = SetExpiration (Assume_defaults env p2) e (ExpiryWindow (STS p))
      \<and> \<not> retrieved p'"
proof -
  have keep: "\<not> retrieved p2" "STS p2 = STS p"
    using filename_keeps(1,3) [OF f] profile_keeps(1,3) [OF pr] by simp_all
  from r l role obtain src where
    a: "Assume env p2 creds src w = Return ((v, None), p', w')"
    by (auto simp: Retrieve_cases [OF f pr] split: prod.splits option.splits)
  from a obtain ro err w1 where
    ro: "Assume_roleOutput (Assume_defaults env p2) (Assume_credentials env creds) w
          = Return ((ro, err), w1)"
    and res: "Assume_result (Assume_defaults env p2) ro err w1 = Return ((v, None), p', w')"
    by (rule Assume_Return)
  from Assume_result_success [OF res] obtain out c e where
    s: "ro = Some out" "err = None" "Credentials out = Some c" "Expiration c = Some e"
      "p' = SetExpiration (Assume_defaults env p2) e (ExpiryWindow (STS (Assume_defaults env p2)))"
      "w' = w1"
    by blast
  have "\<not> retrieved p'"
    using s(5) keep by (simp add: SetExpiration_def Assume_defaults_keeps)
  with ro s keep show ?thesis by (simp add: Assume_defaults_keeps)
qed

text \<open>
  C3, as amended. \<^verbatim>\<open>IsExpired\<close> is true if and only if the retrieved flag is false and
  the current time is at or past the stored expiration. It is true on a new provider, before
  any retrieval, for every clock not before the zero time. After a role-chained \<^verbatim>\<open>Retrieve\<close>
  that succeeds, with \<open>e\<close> the expiration of the response that \<^verbatim>\<open>Assume\<close> obtained, it is
  true exactly from \<open>e\<close> minus the expiry window on (a window of zero or less counting as
  zero) and false strictly before that instant.
\<close>

theorem IsExpired_iff:
  "(IsExpired env p \<longleftrightarrow> \<not> retrieved p \<and> Expiry_expiration p \<le> Now env)
   \<and> (zero_Time \<le> Now env \<longrightarrow> IsExpired env (NewSharedCredentialsProvider env0 f pr))
   \<and> (filename env0 (p\<lparr>retrieved := False\<rparr>) = (fname, None, p1)
        \<and> profile env0 p1 = (prof, p2)
        \<and> loadProfile env0 fname prof = (creds, None) \<and> RoleARN creds \<noteq> ''''
        \<and> Retrieve env0 p w = Return ((v, None), p', w') \<longrightarrow>
      (\<exists>out c e. Assume_roleOutput (Assume_defaults env0 p2) (Assume_credentials env0 creds) w
            = Return ((Some out, None), w')
          \<and> Credentials out = Some c \<and> Expiration c = Some e
          \<and> (IsExpired env p' \<longleftrightarrow>
               e - (if ExpiryWindow (STS p) > 0 then ExpiryWindow (STS p) else 0) \<le> Now env)))"
proof -
  have 1: "IsExpired env p \<longleftrightarrow> \<not> retrieved p \<and> Expiry_expiration p \<le> Now env"
    by (simp add: IsExpired_def Expiry_IsExpired_def)
  have 2: "zero_Time \<le> Now env \<longrightarrow> IsExpired env (NewSharedCredentialsProvider env0 f pr)"
    by (simp add: IsExpired_def Expiry_IsExpired_def NewSharedCredentialsProvider_def)
  have 3: "\<exists>out c e. Assume_roleOutput (Assume_defaults env0 p2) (Assume_credentials env0 creds) w
            = Return ((Some out, None), w')
          \<and> Credentials out = Some c \<and> Expiration c = Some e
          \<and> (IsExpired env p' \<longleftrightarrow>
               e - (if ExpiryWindow (STS p) > 0 then ExpiryWindow (STS p) else 0) \<le> Now env)"
    if h: "filename env0 (p\<lparr>retrieved := False\<rparr>) = (fname, None, p1)"
      "profile env0 p1 = (prof, p2)"
      "loadProfile env0 fname prof = (creds, None)" "RoleARN creds \<noteq> ''''"
      "Retrieve env0 p w = Return ((v, None), p', w')"
  proof -
    from Retrieve_role_success [OF h] obtain out c e where
      s: "Assume_roleOutput (Assume_defaults env0 p2) (Assume_credentials env0 creds) w
            = Return ((Some out, None), w')"
        "Credentials out = Some c" "Expiration c = Some e"
        "p' = SetExpiration (Assume_defaults env0 p2) e (ExpiryWindow (STS p))"
        "\<not> retrieved p'"
      by blast
    have "IsExpired env p' \<longleftrightarrow>
        e - (if ExpiryWindow (STS p) > 0 then ExpiryWindow (STS p) else 0) \<le> Now env"
      using s(5) by (simp add: s(4) IsExpired_def Expiry_IsExpired_def SetExpiration_def)
    with s(1-3) show ?thesis by blast
  qed
  from 1 2 3 show ?thesis by blast
qed

text \<open>
  The amended statement at profile \<^verbatim>\<open>ops\<close>: a session expiring at 2000 with a window of
  100 is expired at 1900 and not at 1899.
\<close>

theorem IsExpired_iff_witness:
  "(\<exists>out c e.
      Assume_roleOutput
        (Assume_defaults (example_env (client_grants 2000) 5)
           ((example_provider (example_env (client_grants 2000) 5) ''ops'' False 100)
              \<lparr>retrieved := False, Filename := ''/home/u/.aws/credentials''\<rparr>))
        (Assume_credentials (example_env (client_grants 2000) 5)
           (Value_ProviderName_only
              \<lparr>RoleARN := ''role/X'', RoleSessionName := ''sess'', SourceProfile := ''default''\<rparr>))
        (example_World no_files)
        = Return ((Some out, None), (example_World no_files)\<lparr>sts_calls := [example_input]\<rparr>)
      \<and> Credentials out = Some c \<and> Expiration c = Some e
      \<and> (IsExpired (example_env (client_grants 2000) 1900)
            (session_state (example_env (client_grants 2000) 5) 100 1900)
           \<longleftrightarrow>
             e - (if ExpiryWindow
                       (STS (example_provider (example_env (client_grants 2000) 5) ''ops'' False 100))
                     > 0
                  then ExpiryWindow
                         (STS (example_provider (example_env (client_grants 2000) 5) ''ops'' False 100))
                  else 0)
             \<le> Now (example_env (client_grants 2000) 1900)))
   \<and> IsExpired (example_env (client_grants 2000) 1900)
        (session_state (example_env (client_grants 2000) 5) 100 1900)
   \<and> \<not> IsExpired (example_env (client_grants 2000) 1899)
        (session_state (example_env (client_grants 2000) 5) 100 1900)"
proof -
  let ?env = "example_env (client_grants 2000) 5"
  let ?p = "example_provider ?env ''ops'' False 100"
  let ?p1 = "?p\<lparr>retrieved := False, Filename := ''/home/u/.aws/credentials''\<rparr>"
  let ?creds = "Value_ProviderName_only
              \<lparr>RoleARN := ''role/X'', RoleSessionName := ''sess'', SourceProfile := ''default''\<rparr>"
  let ?v = "Value_ProviderName_only
         \<lparr>AccessKeyID := ''ASIA'', SecretAccessKey := ''SESSIONSECRET'',
          SessionToken := ''SESSIONTOKEN''\<rparr>"
  let ?w' = "(example_World no_files)\<lparr>sts_calls := [example_input]\<rparr>"
  have h1: "filename ?env (?p\<lparr>retrieved := False\<rparr>) = (''/home/u/.aws/credentials'', None, ?p1)"
    by (simp add: filename_def example_defs Let_def)
  have h2: "profile ?env ?p1 = (''ops'', ?p1)"
    by (simp add: profile_def example_defs Let_def)
  have h3: "loadProfile ?env ''/home/u/.aws/credentials'' ''ops'' = (?creds, None)"
    by (simp add: loadProfile_def validate_def example_defs Value_ProviderName_only_def
        SharedCredsProviderName_def)
  have h4: "RoleARN ?creds \<noteq> ''''"
    by (simp add: Value_ProviderName_only_def)
  have h5: "Retrieve ?env ?p (example_World no_files) =
      Return ((?v, None), session_state ?env 100 1900, ?w')"
    by (simp add: Retrieve_defs example_defs session_state_def Let_def sdiv_900)
  from IsExpired_iff [where env = "example_env (client_grants 2000) 1900" and ?env0.0 = ?env
      and p = ?p and fname = "''/home/u/.aws/credentials''" and ?p1.0 = ?p1
      and prof = "''ops''" and ?p2.0 = ?p1 and creds = ?creds
      and w = "example_World no_files" and v = ?v
      and p' = "session_state ?env 100 1900" and w' = ?w'] h1 h2 h3 h4 h5
  have a: "\<exists>out c e.
      Assume_roleOutput (Assume_defaults ?env ?p1) (Assume_credentials ?env ?creds)
        (example_World no_files) = Return ((Some out, None), ?w')
      \<and> Credentials out = Some c \<and> Expiration c = Some e
      \<and> (IsExpired (example_env (client_grants 2000) 1900) (session_state ?env 100 1900)
           \<longleftrightarrow>
             e - (if ExpiryWindow (STS ?p) > 0 then ExpiryWindow (STS ?p) else 0)
             \<le> Now (example_env (client_grants 2000) 1900))"
    by blast
  have b: "IsExpired (example_env (client_grants 2000) 1900) (session_state ?env 100 1900)"
    "\<not> IsExpired (example_env (client_grants 2000) 1899) (session_state ?env 100 1900)"
    by (simp_all add: IsExpired_def Expiry_IsExpired_def session_state_def example_defs)
  from a b show ?thesis by blast
qed

text \<open>
  C3 as stated fails: after the role-chained \<^verbatim>\<open>Retrieve\<close> of profile \<^verbatim>\<open>ops\<close> at time 5
  the retrieved flag is false, yet \<^verbatim>\<open>IsExpired\<close> is false, the stored expiration 1900 being
  ahead.
\<close>

theorem IsExpired_not_retrieved_not_expired:
  "Retrieve (example_env (client_grants 2000) 5)
     (example_provider (example_env (client_grants 2000) 5) ''ops'' False 100)
     (example_World no_files) =
   Return
     ((Value_ProviderName_only
         \<lparr>AccessKeyID := ''ASIA'', SecretAccessKey := ''SESSIONSECRET'',
          SessionToken := ''SESSIONTOKEN''\<rparr>, None),
      session_state (example_env (client_grants 2000) 5) 100 1900,
      (example_World no_files)\<lparr>sts_calls := [example_input]\<rparr>)
   \<and> \<not> retrieved (session_state (example_env (client_grants 2000) 5) 100 1900)
   \<and> \<not> IsExpired (example_env (client_grants 2000) 5)
         (session_state (example_env (client_grants 2000) 5) 100 1900)"
  by (simp add: Retrieve_defs example_defs session_state_def Let_def sdiv_900
      IsExpired_def Expiry_IsExpired_def)

section \<open>Role-chained profiles\<close>

text \<open>
  C7, as amended. For a role-chained profile that omits \<^verbatim>\<open>source_profile\<close>, loading the
  profile fails in \<^verbatim>\<open>validate\<close>, and \<^verbatim>\<open>Retrieve\<close> returns that
  \<^verbatim>\<open>SharedCredsSourceProfile\<close> error without loading a source profile and without a call
  of \<^verbatim>\<open>Assume\<close>. \<^verbatim>\<open>Retrieve\<close> sets the source profile to \<^verbatim>\<open>default\<close> only on a profile
  that was loaded without an error, and every role-chained profile loaded without an error
  names its source profile.
\<close>

theorem Retrieve_missing_source_profile:
  "(filename env (p\<lparr>retrieved := False\<rparr>) = (fname, None, p1)
      \<and> ini_Load env fname = Inr config
      \<and> config (fst (profile env p1)) = Inr sec
      \<and> sec ''role_arn'' \<noteq> '''' \<and> sec ''source_profile'' = '''' \<longrightarrow>
      Retrieve env p w =
        Return
          ((Value_ProviderName_only,
            Some (AwsErr ''SharedCredsSourceProfile''
                    (''shared credentials '' @ fst (profile env p1) @ '' in '' @ fname
                       @ '' did not contain source_profile'') None)),
           snd (profile env p1), w))
   \<and> (loadProfile env f pr = (creds, None) \<and> RoleARN creds \<noteq> '''' \<longrightarrow>
        SourceProfile creds \<noteq> '''')"
proof -
  have 1: "Retrieve env p w =
        Return
          ((Value_ProviderName_only,
            Some (AwsErr ''SharedCredsSourceProfile''
                    (''shared credentials '' @ fst (profile env p1) @ '' in '' @ fname
                       @ '' did not contain source_profile'') None)),
           snd (profile env p1), w)"
    if h: "filename env (p\<lparr>retrieved := False\<rparr>) = (fname, None, p1)"
      "ini_Load env fname = Inr config" "config (fst (profile env p1)) = Inr sec"
      "sec ''role_arn'' \<noteq> ''''" "sec ''source_profile'' = ''''"
  proof -
    obtain prof p2 where pr: "profile env p1 = (prof, p2)"
      by (cases "profile env p1") auto
    have "loadProfile env fname prof =
        (Value_ProviderName_only,
         Some (AwsErr ''SharedCredsSourceProfile''
                 (''shared credentials '' @ prof @ '' in '' @ fname
                    @ '' did not contain source_profile'') None))"
      using h(2-5) pr by (simp add: loadProfile_def validate_def)
    then show ?thesis using pr by (simp add: Retrieve_cases [OF h(1) pr])
  qed
  have 2: "loadProfile env f pr = (creds, None) \<and> RoleARN creds \<noteq> '''' \<longrightarrow>
        SourceProfile creds \<noteq> ''''"
    using loadProfile_SourceProfile by blast
  from 1 2 show ?thesis by blast
qed

text \<open>The amended statement at the profiles \<^verbatim>\<open>orphan\<close> and \<^verbatim>\<open>ops\<close>.\<close>

theorem Retrieve_missing_source_profile_witness:
  "Retrieve (example_env client_refuses 5)
     (example_provider (example_env client_refuses 5) ''orphan'' True 0)
     (example_World no_files) =
   Return
     ((Value_ProviderName_only,
       Some (AwsErr ''SharedCredsSourceProfile''
               ''shared credentials orphan in /home/u/.aws/credentials did not contain source_profile''
               None)),
      (example_provider (example_env client_refuses 5) ''orphan'' True 0)
        \<lparr>retrieved := False, Filename := ''/home/u/.aws/credentials''\<rparr>,
      example_World no_files)
   \<and> SourceProfile
       (fst (loadProfile (example_env client_refuses 5) ''/home/u/.aws/credentials'' ''ops''))
      \<noteq> ''''"
proof -
  let ?env = "example_env client_refuses 5"
  let ?p = "example_provider ?env ''orphan'' True 0"
  let ?p1 = "?p\<lparr>retrieved := False, Filename := ''/home/u/.aws/credentials''\<rparr>"
  let ?sec = "\<lambda>k. if k = ''role_arn'' then ''role/X'' else ''''"
  let ?creds = "Value_ProviderName_only
              \<lparr>RoleARN := ''role/X'', RoleSessionName := ''sess'', SourceProfile := ''default''\<rparr>"
  have h1: "filename ?env (?p\<lparr>retrieved := False\<rparr>) = (''/home/u/.aws/credentials'', None, ?p1)"
    by (simp add: filename_def example_defs Let_def)
  have h2: "ini_Load ?env ''/home/u/.aws/credentials'' = Inr example_ini"
    by (simp add: example_env_def)
  have pr: "profile ?env ?p1 = (''orphan'', ?p1)"
    by (simp add: profile_def example_defs Let_def)
  have h3: "example_ini (fst (profile ?env ?p1)) = Inr ?sec"
    by (simp add: pr example_ini_def)
  have h4: "?sec ''role_arn'' \<noteq> ''''" and h5: "?sec ''source_profile'' = ''''"
    by simp_all
  have h6: "loadProfile ?env ''/home/u/.aws/credentials'' ''ops'' = (?creds, None)"
    by (simp add: loadProfile_def validate_def example_defs Value_ProviderName_only_def
        SharedCredsProviderName_def)
  have h7: "RoleARN ?creds \<noteq> ''''"
    by (simp add: Value_ProviderName_only_def)
  note t = Retrieve_missing_source_profile [where env = ?env and p = ?p
      and fname = "''/home/u/.aws/credentials''" and ?p1.0 = ?p1 and config = example_ini
      and sec = ?sec and w = "example_World no_files"
      and f = "''/home/u/.aws/credentials''" and pr = "''ops''" and creds = ?creds]
  from t h1 h2 h3 h4 h5 have a: "Retrieve ?env ?p (example_World no_files) =
        Return
          ((Value_ProviderName_only,
            Some (AwsErr ''SharedCredsSourceProfile''
                    (''shared credentials '' @ fst (profile ?env ?p1) @ '' in ''
                       @ ''/home/u/.aws/credentials'' @ '' did not contain source_profile'') None)),
           snd (profile ?env ?p1), example_World no_files)"
    by blast
  from t h6 h7 have b: "SourceProfile ?creds \<noteq> ''''"
    by blast
  from a b show ?thesis by (simp add: pr h6)
qed

text \<open>
  C7 as stated fails: for profile \<^verbatim>\<open>orphan\<close>, beside a loadable profile \<^verbatim>\<open>default\<close>,
  \<^verbatim>\<open>Retrieve\<close> returns \<^verbatim>\<open>SharedCredsSourceProfile\<close> and sends no request.
\<close>

theorem Retrieve_orphan_fails:
  "Retrieve (example_env (client_grants 2000) 5)
     (example_provider (example_env (client_grants 2000) 5) ''orphan'' False 0)
     (example_World no_files) =
   Return
     ((Value_ProviderName_only,
       Some (AwsErr ''SharedCredsSourceProfile''
               ''shared credentials orphan in /home/u/.aws/credentials did not contain source_profile''
               None)),
      (example_provider (example_env (client_grants 2000) 5) ''orphan'' False 0)
        \<lparr>Filename := ''/home/u/.aws/credentials''\<rparr>,
      example_World no_files)
   \<and> fst (loadProfile (example_env (client_grants 2000) 5) ''/home/u/.aws/credentials'' ''default'')
       = Value_ProviderName_only
           \<lparr>AccessKeyID := ''AKID'', SecretAccessKey := ''SECRET'', SessionToken := ''TOKEN''\<rparr>"
  by (simp add: Retrieve_defs example_defs Let_def)

section \<open>The cache in \<^verbatim>\<open>Assume\<close>\<close>

lemma Assume_roleOutput_fresh:
  assumes "Cache p" and "CacheProvider p = Some provider"
    and "provider (SourceProfile c) (RoleARN c) (RoleSessionName c) w = Return (cache, w1)"
    and "Cache_IsExpired cache w1 = Return (False, w2)"
  shows "Assume_roleOutput p c w = Cache_Get cache w2"
  using assms by (simp add: Assume_roleOutput_def)

lemma Assume_roleOutput_stale:
  assumes "Client (STS p) = Some client" and "Cache p" and "CacheProvider p = Some provider"
    and "provider (SourceProfile c) (RoleARN c) (RoleSessionName c) w = Return (cache, w1)"
    and "Cache_IsExpired cache w1 = Return (True, w2)"
  shows "Assume_roleOutput p c w =
     (case client (Assume_input p c) of
        (ro, None) \<Rightarrow>
          Return ((ro, None), w2\<lparr>sts_calls := sts_calls w2 @ [Assume_input p c]\<rparr>)
      | (ro, Some e) \<Rightarrow>
          (case Cache_Set cache ro (w2\<lparr>sts_calls := sts_calls w2 @ [Assume_input p c]\<rparr>) of
             Panic \<Rightarrow> Panic
           | Return (err, w3) \<Rightarrow> Return ((ro, err), w3)))"
  using assms
  by (simp add: Assume_roleOutput_def AssumeRole_def split: prod.splits option.splits)

text \<open>
  C1. The specification requires that with the cache enabled and a stale or absent entry the client is
  called once and a successful response is stored through \<^verbatim>\<open>Set\<close>. \<^verbatim>\<open>Assume\<close> calls
  \<^verbatim>\<open>Set\<close> under \<^verbatim>\<open>err != nil\<close>, that is only when the call failed (see
  \<open>Assume_roleOutput_stale\<close>). For profile \<^verbatim>\<open>ops\<close> on an empty disk the client is called
  once and grants a session, \<^verbatim>\<open>Retrieve\<close> returns it, and the cache file is still absent
  afterwards.
\<close>

theorem Retrieve_success_not_cached:
  "JSONFileCacheProvider_Get (example_env (client_grants 2000) 5) ''~/.aws/cli/cache''
     ''default'' ''role/X'' ''sess'' (example_World no_files)
     = Return (FileCache (example_env (client_grants 2000) 5) example_cache_file,
               example_World no_files)
   \<and> Retrieve (example_env (client_grants 2000) 5)
     (example_provider (example_env (client_grants 2000) 5) ''ops'' True 0)
     (example_World no_files) =
   Return
     ((Value_ProviderName_only
         \<lparr>AccessKeyID := ''ASIA'', SecretAccessKey := ''SESSIONSECRET'',
          SessionToken := ''SESSIONTOKEN''\<rparr>, None),
      (session_state (example_env (client_grants 2000) 5) 0 2000)\<lparr>Cache := True\<rparr>,
      (example_World no_files)\<lparr>sts_calls := [example_input]\<rparr>)
   \<and> FileCache_Get (example_env (client_grants 2000) 5) example_cache_file
       ((example_World no_files)\<lparr>sts_calls := [example_input]\<rparr>)
     = Return ((None, Some (Foreign ''no such file or directory'')),
               (example_World no_files)\<lparr>sts_calls := [example_input]\<rparr>)"
  by (simp add: Retrieve_defs example_defs session_state_def Let_def sdiv_900)

text \<open>
  C2. The specification requires that a fresh cache entry is returned without a call of the client, the
  file-backed \<^verbatim>\<open>IsExpired\<close> comparing the entry's expiration with the clock. \<^verbatim>\<open>Assume\<close>
  does return the entry of a cache that reports it fresh (\<open>Assume_roleOutput_fresh\<close>), but
  \<^verbatim>\<open>FileCache.IsExpired\<close> is the constant \<^verbatim>\<open>true\<close>. For profile \<^verbatim>\<open>ops\<close> at time 5, with a
  readable cache file holding a session that expires at 9000, \<^verbatim>\<open>Retrieve\<close> calls the client
  once and returns the client's session, not the cached one.
\<close>

theorem Retrieve_fresh_entry_ignored:
  "FileCache_Get (example_env (client_grants 2000) 5) example_cache_file
       (example_World cached_files)
     = Return ((Some (example_session 9000), None), example_World cached_files)
   \<and> Now (example_env (client_grants 2000) 5) < 9000
   \<and> FileCache_IsExpired (example_World cached_files) = Return (True, example_World cached_files)
   \<and> Retrieve (example_env (client_grants 2000) 5)
     (example_provider (example_env (client_grants 2000) 5) ''ops'' True 0)
     (example_World cached_files) =
   Return
     ((Value_ProviderName_only
         \<lparr>AccessKeyID := ''ASIA'', SecretAccessKey := ''SESSIONSECRET'',
          SessionToken := ''SESSIONTOKEN''\<rparr>, None),
      (session_state (example_env (client_grants 2000) 5) 0 2000)\<lparr>Cache := True\<rparr>,
      (example_World cached_files)\<lparr>sts_calls := [example_input]\<rparr>)"
  by (simp add: Retrieve_defs example_defs session_state_def cached_files_def Let_def sdiv_900)

text \<open>
  C4. The specification requires that an error of the client reaches the caller, whether the cache is
  enabled or not. With the cache enabled \<^verbatim>\<open>Assume\<close> overwrites \<^verbatim>\<open>err\<close> with the result of
  \<^verbatim>\<open>Set\<close>. For profile \<^verbatim>\<open>ops\<close> and a client that refuses (an empty response beside the
  error): on a writable disk \<^verbatim>\<open>Set\<close> succeeds, the error is lost, and \<^verbatim>\<open>Assume\<close> panics on
  the nil \<^verbatim>\<open>Credentials\<close>; on a disk that refuses the write, the caller gets the error of the
  write; with the cache disabled the caller gets the client's error.
\<close>

theorem Retrieve_error_replaced:
  "Retrieve (example_env client_refuses 5)
     (example_provider (example_env client_refuses 5) ''ops'' True 0)
     (example_World no_files) = Panic
   \<and> Retrieve (readonly_env client_refuses 5)
     (example_provider (readonly_env client_refuses 5) ''ops'' True 0)
     (example_World no_files) =
   Return
     ((Value_ProviderName_only, Some (Foreign ''permission denied'')),
      (example_provider (readonly_env client_refuses 5) ''ops'' True 0)
        \<lparr>Filename := ''/home/u/.aws/credentials'',
         STS := \<lparr>Duration = DefaultDuration, ExpiryWindow = 0, Client = Some client_refuses\<rparr>\<rparr>,
      (example_World no_files)\<lparr>sts_calls := [example_input]\<rparr>)
   \<and> Retrieve (example_env client_refuses 5)
     (example_provider (example_env client_refuses 5) ''ops'' False 0)
     (example_World no_files) =
   Return
     ((Value_ProviderName_only, Some AccessDenied),
      (example_provider (example_env client_refuses 5) ''ops'' False 0)
        \<lparr>Filename := ''/home/u/.aws/credentials'',
         STS := \<lparr>Duration = DefaultDuration, ExpiryWindow = 0, Client = Some client_refuses\<rparr>\<rparr>,
      (example_World no_files)\<lparr>sts_calls := [example_input]\<rparr>)"
  by (simp add: Retrieve_defs example_defs readonly_env_def Let_def sdiv_900)

text \<open>
  C9. With the cache enabled, a cache that reports its entry expired, and a client that
  returns an error beside a nil response, \<^verbatim>\<open>Assume\<close> calls \<^verbatim>\<open>Set\<close> on the nil response
  and panics when \<^verbatim>\<open>Set\<close> panics, and also when \<^verbatim>\<open>Set\<close> succeeds, then on the dereference
  of the nil response; only an error returned by \<^verbatim>\<open>Set\<close> is returned. The file-backed
  \<^verbatim>\<open>Set\<close> panics on a nil response, so with the file-backed cache \<^verbatim>\<open>Assume\<close> panics.
\<close>

theorem Assume_nil_response:
  assumes "Cache p" and "CacheProvider p = Some provider"
    and "provider (SourceProfile (Assume_credentials env credentials))
           (RoleARN (Assume_credentials env credentials))
           (RoleSessionName (Assume_credentials env credentials)) w = Return (cache, w1)"
    and "Cache_IsExpired cache w1 = Return (True, w2)"
    and "Client (STS (Assume_defaults env p)) = Some client"
    and "client (Assume_input (Assume_defaults env p) (Assume_credentials env credentials))
           = (None, Some e)"
  shows "Assume env p credentials sourceCredentials w =
     (case Cache_Set cache None
             (w2\<lparr>sts_calls := sts_calls w2 @
                   [Assume_input (Assume_defaults env p) (Assume_credentials env credentials)]\<rparr>) of
        Panic \<Rightarrow> Panic
      | Return (None, w3) \<Rightarrow> Panic
      | Return (Some e', w3) \<Rightarrow>
          Return ((Value_ProviderName_only, Some e'), Assume_defaults env p, w3))
   \<and> FileCache_Set env' FileName None w' = Panic
   \<and> (Cache_Set cache = FileCache_Set env' FileName \<longrightarrow>
        Assume env p credentials sourceCredentials w = Panic)"
proof -
  let ?p = "Assume_defaults env p" and ?c = "Assume_credentials env credentials"
  have ro: "Assume_roleOutput ?p ?c w =
     (case Cache_Set cache None (w2\<lparr>sts_calls := sts_calls w2 @ [Assume_input ?p ?c]\<rparr>) of
        Panic \<Rightarrow> Panic
      | Return (err, w3) \<Rightarrow> Return ((None, err), w3))"
  proof -
    have k: "Cache ?p" "CacheProvider ?p = Some provider"
      using assms(1,2) by (simp_all add: Assume_defaults_keeps)
    show ?thesis
      using Assume_roleOutput_stale [OF assms(5) k assms(3) assms(4)] assms(6) by simp
  qed
  have 1: "Assume env p credentials sourceCredentials w =
     (case Cache_Set cache None (w2\<lparr>sts_calls := sts_calls w2 @ [Assume_input ?p ?c]\<rparr>) of
        Panic \<Rightarrow> Panic
      | Return (None, w3) \<Rightarrow> Panic
      | Return (Some e', w3) \<Rightarrow> Return ((Value_ProviderName_only, Some e'), ?p, w3))"
    by (simp add: Assume_def Let_def ro Assume_result_def
        split: outcome.splits prod.splits option.splits)
  have 2: "FileCache_Set env' FileName None w' = Panic"
    by (simp add: FileCache_Set_def)
  have 3: "Cache_Set cache = FileCache_Set env' FileName \<longrightarrow>
        Assume env p credentials sourceCredentials w = Panic"
    by (simp add: 1 FileCache_Set_def)
  from 1 2 3 show ?thesis by blast
qed

text \<open>
  C9 at profile \<^verbatim>\<open>ops\<close> with the file-backed cache and a client that refuses with a nil
  response: \<^verbatim>\<open>Assume\<close>, and \<^verbatim>\<open>Retrieve\<close> with it, panics.
\<close>

theorem Assume_nil_response_witness:
  "Assume (example_env client_refuses_nil 5)
     ((example_provider (example_env client_refuses_nil 5) ''ops'' True 0)
        \<lparr>Filename := ''/home/u/.aws/credentials''\<rparr>)
     (Value_ProviderName_only
        \<lparr>RoleARN := ''role/X'', RoleSessionName := ''sess'', SourceProfile := ''default''\<rparr>)
     (Value_ProviderName_only
        \<lparr>AccessKeyID := ''AKID'', SecretAccessKey := ''SECRET'', SessionToken := ''TOKEN''\<rparr>)
     (example_World no_files) = Panic
   \<and> Retrieve (example_env client_refuses_nil 5)
       (example_provider (example_env client_refuses_nil 5) ''ops'' True 0)
       (example_World no_files) = Panic"
proof -
  let ?env = "example_env client_refuses_nil 5"
  let ?p = "(example_provider ?env ''ops'' True 0)\<lparr>Filename := ''/home/u/.aws/credentials''\<rparr>"
  let ?creds = "Value_ProviderName_only
        \<lparr>RoleARN := ''role/X'', RoleSessionName := ''sess'', SourceProfile := ''default''\<rparr>"
  let ?w = "example_World no_files"
  let ?cache = "FileCache ?env example_cache_file"
  have c: "Assume_credentials ?env ?creds = ?creds"
    by (simp add: Assume_credentials_def Value_ProviderName_only_def)
  have h1: "Cache ?p"
    by (simp add: example_defs)
  have h2: "CacheProvider ?p = Some (JSONFileCacheProvider_Get ?env ''~/.aws/cli/cache'')"
    by (simp add: example_defs)
  have h3: "JSONFileCacheProvider_Get ?env ''~/.aws/cli/cache''
       (SourceProfile (Assume_credentials ?env ?creds)) (RoleARN (Assume_credentials ?env ?creds))
       (RoleSessionName (Assume_credentials ?env ?creds)) ?w = Return (?cache, ?w)"
    unfolding c
    by (simp add: JSONFileCacheProvider_Get_def getCacheKey_def example_defs
        Value_ProviderName_only_def Let_def)
  have h4: "Cache_IsExpired ?cache ?w = Return (True, ?w)"
    by (simp add: FileCache_def FileCache_IsExpired_def)
  have h5: "Client (STS (Assume_defaults ?env ?p)) = Some client_refuses_nil"
    by (simp add: Assume_defaults_Client example_defs)
  have h6: "client_refuses_nil (Assume_input (Assume_defaults ?env ?p) (Assume_credentials ?env ?creds))
      = (None, Some AccessDenied)"
    by (simp add: client_refuses_nil_def)
  have s: "Cache_Set ?cache = FileCache_Set ?env example_cache_file"
    by (simp add: FileCache_def)
  from Assume_nil_response [OF h1 h2 h3 h4 h5 h6, of _ ?env example_cache_file] s
  have a: "Assume ?env ?p ?creds
     (Value_ProviderName_only
        \<lparr>AccessKeyID := ''AKID'', SecretAccessKey := ''SECRET'', SessionToken := ''TOKEN''\<rparr>)
     ?w = Panic"
    by blast
  have r: "Retrieve ?env (example_provider ?env ''ops'' True 0) ?w = Panic"
    by (simp add: Retrieve_defs example_defs Let_def sdiv_900)
  from a r show ?thesis by blast
qed

end
